theory Spec2Isabelle
  imports Main "HOL-Library.Word"
begin

unbundle bit_operations_syntax

section \<open>Go errors and gRPC status codes\<close>

text \<open>
  A Go \<open>error\<close> is a plain error carrying a message (\<open>fmt.Errorf\<close>), a gRPC
  status error carrying a code and a message (\<open>status.Error\<close>,
  \<open>status.Errorf\<close>), or one of the error variables that packages export and callers
  compare by identity (\<open>err == peers.ErrNodeNotFound\<close>); a \<open>Sentinel\<close> carries
  the name of the variable.
\<close>

datatype code =
    OK | Canceled | Unknown | InvalidArgument | DeadlineExceeded | NotFound
  | AlreadyExists | PermissionDenied | ResourceExhausted | FailedPrecondition
  | Aborted | OutOfRange | Unimplemented | Internal | Unavailable | DataLoss
  | Unauthenticated

datatype go_error = Errorf string | Status code string | Sentinel string

fun code_String :: "code \<Rightarrow> string" where
  "code_String OK = ''OK''"
| "code_String Canceled = ''Canceled''"
| "code_String Unknown = ''Unknown''"
| "code_String InvalidArgument = ''InvalidArgument''"
| "code_String DeadlineExceeded = ''DeadlineExceeded''"
| "code_String NotFound = ''NotFound''"
| "code_String AlreadyExists = ''AlreadyExists''"
| "code_String PermissionDenied = ''PermissionDenied''"
| "code_String ResourceExhausted = ''ResourceExhausted''"
| "code_String FailedPrecondition = ''FailedPrecondition''"
| "code_String Aborted = ''Aborted''"
| "code_String OutOfRange = ''OutOfRange''"
| "code_String Unimplemented = ''Unimplemented''"
| "code_String Internal = ''Internal''"
| "code_String Unavailable = ''Unavailable''"
| "code_String DataLoss = ''DataLoss''"
| "code_String Unauthenticated = ''Unauthenticated''"

text \<open>\<open>err.Error()\<close>: the message of a plain error, the rendering of a status error.\<close>

fun Error :: "go_error \<Rightarrow> string" where
  "Error (Errorf msg) = msg"
| "Error (Status c msg) = ''rpc error: code = '' @ code_String c @ '' desc = '' @ msg"
| "Error (Sentinel name) = name"

text \<open>
  \<open>status.Code(err)\<close> of the gRPC library: the code of a status error, and
  \<open>Unknown\<close> for every other non-nil error.
\<close>

fun status_Code :: "go_error \<Rightarrow> code" where
  "status_Code (Status c msg) = c"
| "status_Code (Errorf msg) = Unknown"
| "status_Code (Sentinel name) = Unknown"

section \<open>Decimal and hexadecimal rendering\<close>

definition digits :: string where
  "digits = ''0123456789abcdef''"

fun Itoa :: "nat \<Rightarrow> string" where
  "Itoa n = (if n < 10 then [digits ! n] else Itoa (n div 10) @ [digits ! (n mod 10)])"

declare Itoa.simps [simp del]

fun appendHex :: "nat \<Rightarrow> string" where
  "appendHex n = (if n < 16 then [digits ! n] else appendHex (n div 16) @ [digits ! (n mod 16)])"

declare appendHex.simps [simp del]

section \<open>The addresses and prefixes of \<open>net/netip\<close>\<close>

text \<open>
  An \<open>Addr\<close> is the zero (invalid) address, an IPv4 address of 32 bits or an IPv6
  address of 128 bits. Zones are left out: \<open>ParsePrefix\<close> rejects them and
  \<open>PrefixFrom\<close> strips them, so no prefix carries one.
\<close>

datatype Addr = InvalidAddr | V4 "32 word" | V6 "128 word"

text \<open>
  A \<open>Prefix\<close> is an address and a bit count; the count is \<open>-1\<close> for an invalid
  prefix, as \<open>Prefix.Bits\<close> reports it.
\<close>

datatype Prefix = Prefix (Addr: Addr) (Bits: int)

definition zeroPrefix :: Prefix where
  "zeroPrefix = Prefix InvalidAddr (-1)"

fun Is4 :: "Addr \<Rightarrow> bool" where
  "Is4 (V4 w) = True"
| "Is4 a = False"

fun Is6 :: "Addr \<Rightarrow> bool" where
  "Is6 (V6 w) = True"
| "Is6 a = False"

fun BitLen :: "Addr \<Rightarrow> int" where
  "BitLen InvalidAddr = 0"
| "BitLen (V4 w) = 32"
| "BitLen (V6 w) = 128"

definition PrefixFrom :: "Addr \<Rightarrow> int \<Rightarrow> Prefix" where
  "PrefixFrom ip bits =
     (if ip \<noteq> InvalidAddr \<and> 0 \<le> bits \<and> bits \<le> BitLen ip then Prefix ip bits
      else Prefix ip (-1))"

definition IsValid :: "Prefix \<Rightarrow> bool" where
  "IsValid p = (0 \<le> Bits p)"

text \<open>\<open>Addr.Next\<close>: the following address, the zero address after the last one.\<close>

fun Next :: "Addr \<Rightarrow> Addr" where
  "Next InvalidAddr = InvalidAddr"
| "Next (V4 w) = (if w + 1 = 0 then InvalidAddr else V4 (w + 1))"
| "Next (V6 w) = (if w + 1 = 0 then InvalidAddr else V6 (w + 1))"

text \<open>
  \<open>Prefix.Contains\<close>: the prefix is valid, the address is of the same family and
  agrees with the prefix's address on its first \<open>Bits\<close> bits.
\<close>

fun Contains :: "Prefix \<Rightarrow> Addr \<Rightarrow> bool" where
  "Contains (Prefix (V4 b) n) (V4 w) =
     (0 \<le> n \<and> drop_bit (nat (32 - n)) (w XOR b) = 0)"
| "Contains (Prefix (V6 b) n) (V6 w) =
     (0 \<le> n \<and> drop_bit (nat (128 - n)) (w XOR b) = 0)"
| "Contains p a = False"

text \<open>\<open>Addr.String\<close> and \<open>Prefix.String\<close>.\<close>

definition string4 :: "32 word \<Rightarrow> string" where
  "string4 w =
     Itoa (unat (drop_bit 24 w) mod 256) @ ''.'' @ Itoa (unat (drop_bit 16 w) mod 256) @ ''.'' @
     Itoa (unat (drop_bit 8 w) mod 256) @ ''.'' @ Itoa (unat w mod 256)"

definition v6u16 :: "128 word \<Rightarrow> nat \<Rightarrow> nat" where
  "v6u16 w i = unat (drop_bit ((7 - i) * 16) w) mod 65536"

text \<open>
  \<open>for j < 8 && ip.v6u16(j) == 0 { j++ }\<close>: the end of the run of zero groups
  that starts at group \<open>j\<close>.
\<close>

function zeroRun :: "128 word \<Rightarrow> nat \<Rightarrow> nat" where
  "zeroRun w j = (if j < 8 \<and> v6u16 w j = 0 then zeroRun w (j + 1) else j)"
  by pat_completeness auto
termination
  by (relation "measure (\<lambda>(w, j). 8 - j)") auto

declare zeroRun.simps [simp del]

text \<open>
  The first loop of \<open>appendTo6\<close>: the longest run of at least two zero groups, the
  leftmost on a tie; \<open>(255, 255)\<close> when there is none.
\<close>

function zeroSpan :: "128 word \<Rightarrow> nat \<Rightarrow> nat \<times> nat \<Rightarrow> nat \<times> nat" where
  "zeroSpan w i (zeroStart, zeroEnd) =
     (if i < 8 then
        (let j = zeroRun w i; l = j - i
         in zeroSpan w (i + 1)
              (if 2 \<le> l \<and> zeroEnd - zeroStart < l then (i, j) else (zeroStart, zeroEnd)))
      else (zeroStart, zeroEnd))"
  by pat_completeness auto
termination
  by (relation "measure (\<lambda>(w, i, zs). 8 - i)") auto

declare zeroSpan.simps [simp del]

text \<open>
  The second loop of \<open>appendTo6\<close>, from group \<open>i\<close> on. The loop runs at most eight
  times; \<open>fuel\<close> counts the iterations that are left.
\<close>

fun groups6 :: "128 word \<Rightarrow> nat \<times> nat \<Rightarrow> nat \<Rightarrow> nat \<Rightarrow> string" where
  "groups6 w (zeroStart, zeroEnd) i fuel =
     (if fuel = 0 \<or> 8 \<le> i then []
      else if i = zeroStart then
        ''::'' @ (if 8 \<le> zeroEnd then []
                  else appendHex (v6u16 w zeroEnd) @ groups6 w (zeroStart, zeroEnd) (zeroEnd + 1) (fuel - 1))
      else (if 0 < i then '':'' else []) @ appendHex (v6u16 w i) @
           groups6 w (zeroStart, zeroEnd) (i + 1) (fuel - 1))"

declare groups6.simps [simp del]

definition string6 :: "128 word \<Rightarrow> string" where
  "string6 w = groups6 w (zeroSpan w 0 (255, 255)) 0 8"

definition Is4In6 :: "128 word \<Rightarrow> bool" where
  "Is4In6 w = (drop_bit 32 w = 0xFFFF)"

fun Addr_String :: "Addr \<Rightarrow> string" where
  "Addr_String InvalidAddr = ''invalid IP''"
| "Addr_String (V4 w) = string4 w"
| "Addr_String (V6 w) =
     (if Is4In6 w then ''::ffff:'' @ string4 (ucast w) else string6 w)"

definition Prefix_String :: "Prefix \<Rightarrow> string" where
  "Prefix_String p =
     (if \<not> IsValid p then ''invalid Prefix''
      else Addr_String (Addr p) @ ''/'' @ Itoa (nat (Bits p)))"

section \<open>The IPAM plugin\<close>

text \<open>
  Modelled from the spec: the peer type of package \<open>peers\<close> is not among the sources.
  A peer record has ``identity (string ID, globally unique), public key, zero or more
  advertised endpoints (public and WireGuard-specific), allocated private addresses
  (at most one IPv4 /32 and one IPv6 /128, each optional), a bitmask/set of enabled
  features each mapped to a listen port, a join timestamp, and an optional
  zone-awareness tag'' (spec 3). The fields carry the names under which the sources
  read them, but for \<open>Id\<close>, written \<open>Id'\<close> since HOL has a constant of that name;
  the private addresses are prefixes, invalid when absent
  (\<open>n.PrivateIPv4.IsValid()\<close>).
\<close>

datatype Feature = NODES | LEADER_PROXY | MESH_API | ADMIN_API | MEMBERSHIP | METRICS
  | PEER_DISCOVERY | ICE_NEGOTIATION | TURN_SERVER | MESH_DNS | FORWARD_MESH_DNS
  | STORAGE_QUERIER | RAFT

record MeshNode =
  Id' :: string
  PrimaryEndpoint :: string
  WireguardEndpoints :: "string list"
  ZoneAwarenessId :: string
  PublicKey :: string
  PrivateIPv4 :: Prefix
  PrivateIPv6 :: Prefix
  Features :: "(Feature \<times> int) list"
  JoinedAt :: int

text \<open>
  Modelled from the spec: the storage interface and the handle that \<open>plugindb.Open\<close>
  returns are not among the sources. The handle is seen through the calls the plugins
  make on it, each of which returns a result or an error: \<open>List(prefix)\<close>, the
  ``ordered sequence of keys'', and \<open>GetValue(key)\<close> (spec 4.2), and the peer listing
  \<open>peers.New(data).List(ctx)\<close>, ``all peer records'' (spec 4.6).
\<close>

record MeshStorage =
  List :: "string \<Rightarrow> go_error + string list"
  GetValue :: "string \<Rightarrow> go_error + string"
  ListPeers :: "go_error + MeshNode list"

text \<open>
  The static assignments are Go maps; an association list stands for the map that
  \<open>map_of\<close> reads from it.
\<close>

record Config =
  StaticIPv4 :: "(string \<times> string) list"
  StaticIPv6 :: "(string \<times> string) list"

record Plugin =
  config :: Config
  data :: "MeshStorage option"

datatype IPVersion = IP_VERSION_UNKNOWN | IP_VERSION_4 | IP_VERSION_6

record AllocateIPRequest =
  NodeId :: string
  Subnet :: string
  Version :: IPVersion

record AllocatedIP =
  Ip :: string

text \<open>\<open>for _, addr := range m { if addr == s { return true } }\<close> over a Go map.\<close>

definition hasValue :: "(string \<times> string) list \<Rightarrow> string \<Rightarrow> bool" where
  "hasValue m s = list_ex (\<lambda>(k, addr). map_of m k = Some addr \<and> addr = s) m"

definition isStaticAllocation :: "Plugin \<Rightarrow> Prefix \<Rightarrow> bool" where
  "isStaticAllocation p ip =
     (if Is4 (Addr ip) then hasValue (StaticIPv4 (config p)) (Prefix_String ip)
      else hasValue (StaticIPv6 (config p)) (Prefix_String ip))"

text \<open>The loop of \<open>next32\<close>, from the address \<open>ip\<close> on.\<close>

text \<open>The number of addresses from \<open>ip\<close> to the last one of its family.\<close>

fun remaining :: "Addr \<Rightarrow> nat" where
  "remaining InvalidAddr = 0"
| "remaining (V4 w) = 2 ^ 32 - unat w"
| "remaining (V6 w) = 2 ^ 128 - unat w"

lemma unat_Suc_word: "w + 1 \<noteq> 0 \<Longrightarrow> unat (w + 1) = unat w + 1" for w :: "'a::len word"
proof -
  assume nz: "w + 1 \<noteq> 0"
  have lt: "unat w < 2 ^ LENGTH('a)" by (rule unsigned_less)
  have "unat w + 1 \<noteq> 2 ^ LENGTH('a)"
  proof
    assume "unat w + 1 = 2 ^ LENGTH('a)"
    then have "unat (w + 1) = 0" by (simp add: unat_word_ariths)
    then have "w + 1 = 0" by (simp add: unat_eq_0)
    with nz show False by simp
  qed
  with lt have "unat w + 1 < 2 ^ LENGTH('a)" by linarith
  then have "unat w + unat (1 :: 'a word) < 2 ^ LENGTH('a)" by simp
  then show ?thesis by (simp add: unat_add_lem [THEN iffD1])
qed

lemma unat_less_32: "unat (w :: 32 word) < 2 ^ 32"
  using unsigned_less [of w] by simp

lemma unat_less_128: "unat (w :: 128 word) < 2 ^ 128"
  using unsigned_less [of w] by simp

lemma remaining_Next: "ip \<noteq> InvalidAddr \<Longrightarrow> remaining (Next ip) < remaining ip"
proof (cases ip)
  case InvalidAddr
  assume "ip \<noteq> InvalidAddr"
  with InvalidAddr show ?thesis by simp
next
  case (V4 w)
  show ?thesis
  proof (cases "w + 1 = 0")
    case True
    with V4 unat_less_32 [of w] show ?thesis by simp
  next
    case False
    then have "unat (w + 1) = unat w + 1"
      by (rule unat_Suc_word)
    with V4 False unat_less_32 [of w] show ?thesis by simp
  qed
next
  case (V6 w)
  show ?thesis
  proof (cases "w + 1 = 0")
    case True
    with V6 unat_less_128 [of w] show ?thesis by simp
  next
    case False
    then have "unat (w + 1) = unat w + 1"
      by (rule unat_Suc_word)
    with V6 False unat_less_128 [of w] show ?thesis by simp
  qed
qed

lemma Contains_valid: "Contains cidr ip \<Longrightarrow> ip \<noteq> InvalidAddr"
  by (cases ip) auto

function next32_loop :: "Plugin \<Rightarrow> Prefix \<Rightarrow> Prefix set \<Rightarrow> Addr \<Rightarrow> go_error + Prefix" where
  "next32_loop p cidr allocated ip =
     (if Contains cidr ip then
        (let prefix = PrefixFrom ip 32
         in if prefix \<notin> allocated \<and> \<not> isStaticAllocation p prefix then Inr prefix
            else next32_loop p cidr allocated (Next ip))
      else Inl (Errorf (''no more addresses in '' @ Prefix_String cidr)))"
  by pat_completeness auto
termination
  by (relation "measure (\<lambda>(p, cidr, allocated, ip). remaining ip)")
     (auto intro: remaining_Next dest: Contains_valid)

declare next32_loop.simps [simp del]

definition next32 :: "Plugin \<Rightarrow> Prefix \<Rightarrow> Prefix set \<Rightarrow> go_error + Prefix" where
  "next32 p cidr allocated = next32_loop p cidr allocated (Next (Addr cidr))"

text \<open>
  The set of addresses in use: \<open>allocated[n.PrivateIPv4] = struct{}{}\<close> for every
  listed node whose address is valid.
\<close>

definition allocatedV4 :: "MeshNode list \<Rightarrow> Prefix set" where
  "allocatedV4 nodes = set (map PrivateIPv4 (filter (\<lambda>n. IsValid (PrivateIPv4 n)) nodes))"

definition allocatedV6 :: "MeshNode list \<Rightarrow> Prefix set" where
  "allocatedV6 nodes = set (map PrivateIPv6 (filter (\<lambda>n. IsValid (PrivateIPv6 n)) nodes))"

text \<open>
  \<open>netip.ParsePrefix\<close> is the standard library's parser; the functions that call it
  take it as the parameter \<open>ParsePrefix\<close>. A nil storage handle makes the peer
  listing panic; \<open>Allocate\<close> excludes it before it calls this function.
\<close>

definition nilPanic :: go_error where
  "nilPanic = Errorf ''panic: runtime error: invalid memory address or nil pointer dereference''"

definition allocateV4 ::
  "(string \<Rightarrow> go_error + Prefix) \<Rightarrow> Plugin \<Rightarrow> AllocateIPRequest \<Rightarrow> go_error + AllocatedIP" where
  "allocateV4 ParsePrefix p r =
     (case ParsePrefix (Subnet r) of
        Inl err \<Rightarrow> Inl (Errorf (''parse subnet: '' @ Error err))
      | Inr globalPrefix \<Rightarrow>
          (case data p of
             None \<Rightarrow> Inl nilPanic
           | Some d \<Rightarrow>
               (case ListPeers d of
                  Inl err \<Rightarrow> Inl (Errorf (''list nodes: '' @ Error err))
                | Inr nodes \<Rightarrow>
                    (case next32 p globalPrefix (allocatedV4 nodes) of
                       Inl err \<Rightarrow> Inl (Errorf (''find next available IPv4: '' @ Error err))
                     | Inr prefix \<Rightarrow> Inr \<lparr>Ip = Prefix_String prefix\<rparr>))))"

text \<open>
  The 16 bytes of an IPv6 address (\<open>AsSlice\<close>, \<open>AddrFromSlice\<close>) are the bytes of
  its 128-bit value, most significant first: \<open>ip[i] = b\<close> replaces the bits
  \<open>8 * (15 - i)\<close> to \<open>8 * (15 - i) + 7\<close>, counted from the least significant one.
\<close>

definition setByte :: "128 word \<Rightarrow> nat \<Rightarrow> 8 word \<Rightarrow> 128 word" where
  "setByte w i b =
     (w AND NOT (push_bit (8 * (15 - i)) (mask 8))) OR push_bit (8 * (15 - i)) (ucast b)"

text \<open>\<open>binary.BigEndian.PutUint16\<close>: the high byte, then the low byte.\<close>

definition PutUint16 :: "16 word \<Rightarrow> 8 word \<times> 8 word" where
  "PutUint16 v = (ucast (drop_bit 8 v), ucast v)"

definition withSubnet :: "128 word \<Rightarrow> 16 word \<Rightarrow> 128 word" where
  "withSubnet w v = (case PutUint16 v of (subnet0, subnet1) \<Rightarrow> setByte (setByte w 6 subnet0) 7 subnet1)"

text \<open>
  \<open>random64\<close>, with the value that \<open>r.Intn(65536)\<close> draws as the argument
  \<open>n\<close>; \<open>uint16(n)\<close> keeps its low 16 bits.
\<close>

definition random64 :: "Prefix \<Rightarrow> nat \<Rightarrow> go_error + Prefix" where
  "random64 prefix n =
     (if \<not> Is6 (Addr prefix) then Inl (Errorf ''prefix must be IPv6'')
      else if Bits prefix \<noteq> 48 then Inl (Errorf ''prefix must be /48'')
      else case Addr prefix of
             V6 w \<Rightarrow> Inr (PrefixFrom (V6 (withSubnet w (of_nat n))) 64)
           | ip \<Rightarrow> Inr (PrefixFrom ip 64))"

definition maxTries :: nat where
  "maxTries = 100"

text \<open>
  The retry loop of \<open>allocateV6\<close>; \<open>draws i\<close> is the value drawn in the
  iteration that starts with \<open>tries = i\<close>.
\<close>

function allocateV6_loop ::
  "Plugin \<Rightarrow> Prefix \<Rightarrow> Prefix set \<Rightarrow> (nat \<Rightarrow> nat) \<Rightarrow> nat \<Rightarrow> go_error + AllocatedIP" where
  "allocateV6_loop p globalPrefix allocated draws tries =
     (if tries < maxTries then
        (case random64 globalPrefix (draws tries) of
           Inl err \<Rightarrow> Inl (Errorf (''random IPv6: '' @ Error err))
         | Inr prefix \<Rightarrow>
             if prefix \<notin> allocated \<and> \<not> isStaticAllocation p prefix
             then Inr \<lparr>Ip = Prefix_String prefix\<rparr>
             else allocateV6_loop p globalPrefix allocated draws (tries + 1))
      else Inl (Errorf (''failed to find available IPv6 after '' @ Itoa maxTries @ '' tries'')))"
  by pat_completeness auto
termination
  by (relation "measure (\<lambda>(p, globalPrefix, allocated, draws, tries). maxTries - tries)") auto

declare allocateV6_loop.simps [simp del]

definition allocateV6 ::
  "(string \<Rightarrow> go_error + Prefix) \<Rightarrow> (nat \<Rightarrow> nat) \<Rightarrow> Plugin \<Rightarrow> AllocateIPRequest
     \<Rightarrow> go_error + AllocatedIP" where
  "allocateV6 ParsePrefix draws p r =
     (case ParsePrefix (Subnet r) of
        Inl err \<Rightarrow> Inl (Errorf (''parse subnet: '' @ Error err))
      | Inr globalPrefix \<Rightarrow>
          (case data p of
             None \<Rightarrow> Inl nilPanic
           | Some d \<Rightarrow>
               (case ListPeers d of
                  Inl err \<Rightarrow> Inl (Errorf (''list nodes: '' @ Error err))
                | Inr nodes \<Rightarrow> allocateV6_loop p globalPrefix (allocatedV6 nodes) draws 0)))"

fun IPVersion_String :: "IPVersion \<Rightarrow> string" where
  "IPVersion_String IP_VERSION_UNKNOWN = ''IP_VERSION_UNKNOWN''"
| "IPVersion_String IP_VERSION_4 = ''IP_VERSION_4''"
| "IPVersion_String IP_VERSION_6 = ''IP_VERSION_6''"

definition Allocate ::
  "(string \<Rightarrow> go_error + Prefix) \<Rightarrow> (nat \<Rightarrow> nat) \<Rightarrow> Plugin \<Rightarrow> AllocateIPRequest
     \<Rightarrow> go_error + AllocatedIP" where
  "Allocate ParsePrefix draws p r =
     (if data p = None then Inl (Errorf ''plugin not configured'')
      else case Version r of
        IP_VERSION_4 \<Rightarrow>
          (case map_of (StaticIPv4 (config p)) (NodeId r) of
             Some addr \<Rightarrow> Inr \<lparr>Ip = addr\<rparr>
           | None \<Rightarrow> allocateV4 ParsePrefix p r)
      | IP_VERSION_6 \<Rightarrow>
          (case map_of (StaticIPv6 (config p)) (NodeId r) of
             Some addr \<Rightarrow> Inr \<lparr>Ip = addr\<rparr>
           | None \<Rightarrow> allocateV6 ParsePrefix draws p r)
      | v \<Rightarrow> Inl (Errorf (''unsupported IP version: '' @ IPVersion_String v)))"

text \<open>\<open>Release\<close> is a no-op: it neither reads the request nor the storage handle.\<close>

definition Release :: "Plugin \<Rightarrow> 'request \<Rightarrow> go_error + unit" where
  "Release p r = Inr ()"

section \<open>Membership: Leave\<close>

text \<open>
  What the handler reads from the request context: whether the caller is in the mesh
  network (\<open>context.IsInNetwork(ctx, s.wg)\<close>), the identity the request was
  proxied for (\<open>leaderproxy.ProxiedFor\<close>) and the authenticated caller
  (\<open>context.AuthenticatedCallerFrom\<close>).
\<close>

record Context =
  IsInNetwork :: bool
  ProxiedFor :: "string option"
  AuthenticatedCallerFrom :: "string option"

datatype LeaveRequest = LeaveRequest (GetId: string)

datatype LeaveResponse = LeaveResponse

text \<open>The node of an event, with the private addresses as strings.\<close>

record v1_MeshNode =
  v1_Id :: string
  v1_PrimaryEndpoint :: string
  v1_WireguardEndpoints :: "string list"
  v1_ZoneAwarenessId :: string
  v1_PublicKey :: string
  v1_PrivateIpv4 :: string
  v1_PrivateIpv6 :: string
  v1_Features :: "(Feature \<times> int) list"
  v1_JoinedAt :: int

datatype Event_WatchEvent = UNKNOWN_EVENT | NODE_JOIN | NODE_LEAVE | LEADER_CHANGE

record Event =
  Type :: Event_WatchEvent
  Node :: v1_MeshNode

text \<open>The plugin manager, seen through \<open>HasWatchers\<close>.\<close>

record Manager =
  HasWatchers :: bool

text \<open>The calls that the handler makes on the consensus module and on the peers store.\<close>

datatype call =
    RaftRemoveServer string bool
  | RaftBarrier int
  | PeersGet string
  | PeersDelete string

text \<open>
  The server: leadership and security mode, the plugin manager (\<open>None\<close> for nil), the
  peers store and the voters of the consensus group, the errors that the next store
  lookup, consensus removal and store delete end with (\<open>None\<close> for success), the
  calls made so far and the events handed to the plugins by the detached goroutine.
\<close>

record Server =
  IsLeader :: bool
  IsSecure :: bool
  plugins :: "Manager option"
  peers :: "string \<rightharpoonup> MeshNode"
  voters :: "string list"
  getFault :: "go_error option"
  removeServerFault :: "go_error option"
  deleteFault :: "go_error option"
  calls :: "call list"
  emitted :: "Event list"

text \<open>The error variable \<open>peers.ErrNodeNotFound\<close>.\<close>

definition ErrNodeNotFound :: go_error where
  "ErrNodeNotFound = Sentinel ''peers.ErrNodeNotFound''"

text \<open>
  Modelled from the spec: the peers store \<open>peers.New(s.raft.Storage())\<close> is not among
  the sources. \<open>Get\<close> returns the record of the peer, fails with \<open>ErrNodeNotFound\<close>
  when the store holds none (``fails \<open>NotFound\<close> if absent'', spec 4.2; ``the target
  peer is unknown'', spec 4.5), or fails with the error of the storage.
\<close>

definition peers_Get :: "Server \<Rightarrow> string \<Rightarrow> (go_error + MeshNode) \<times> Server" where
  "peers_Get s id' =
     (let s' = s\<lparr>calls := calls s @ [PeersGet id']\<rparr>
      in case getFault s of
           Some err \<Rightarrow> (Inl err, s')
         | None \<Rightarrow>
             (case peers s id' of
                None \<Rightarrow> (Inl ErrNodeNotFound, s')
              | Some node \<Rightarrow> (Inr node, s')))"

text \<open>
  Modelled from the spec: \<open>Delete\<close> of the peers store, not among the sources. It
  removes the record of the peer (``deleted by Leave'', spec 3) or fails with the error
  of the storage and changes nothing.
\<close>

definition peers_Delete :: "Server \<Rightarrow> string \<Rightarrow> go_error option \<times> Server" where
  "peers_Delete s id' =
     (let s' = s\<lparr>calls := calls s @ [PeersDelete id']\<rparr>
      in case deleteFault s of
           Some err \<Rightarrow> (Some err, s')
         | None \<Rightarrow> (None, s'\<lparr>peers := (peers s)(id' := None)\<rparr>))"

text \<open>
  Modelled from the spec: the consensus module is not among the sources.
  \<open>RemoveServer\<close> ``reconfigures cluster membership'' (spec 4.1): it takes the server
  out of the group, or fails and changes nothing.
\<close>

definition raft_RemoveServer :: "Server \<Rightarrow> string \<Rightarrow> bool \<Rightarrow> go_error option \<times> Server" where
  "raft_RemoveServer s id' wait =
     (let s' = s\<lparr>calls := calls s @ [RaftRemoveServer id' wait]\<rparr>
      in case removeServerFault s of
           Some err \<Rightarrow> (Some err, s')
         | None \<Rightarrow> (None, s'\<lparr>voters := removeAll id' (voters s)\<rparr>))"

text \<open>
  Modelled from the spec: \<open>Barrier(timeout)\<close> of the consensus module ``blocks until
  all log entries committed before the call are applied locally'' (spec 4.1), for at
  most the timeout, a duration in nanoseconds. \<open>Leave\<close> drops its result; the model
  records the call.
\<close>

definition raft_Barrier :: "Server \<Rightarrow> int \<Rightarrow> Server" where
  "raft_Barrier s timeout = s\<lparr>calls := calls s @ [RaftBarrier timeout]\<rparr>"

definition Second :: int where
  "Second = 1000000000"

text \<open>
  Modelled from the spec: \<open>PortFor\<close> is a method of the peer type, which is not among
  the sources. A peer has ``a set of enabled features each mapped to a listen port''
  (spec 3); the port of a feature that is not enabled is 0.
\<close>

definition PortFor :: "MeshNode \<Rightarrow> Feature \<Rightarrow> int" where
  "PortFor node feature = (case map_of (Features node) feature of Some port \<Rightarrow> port | None \<Rightarrow> 0)"

text \<open>
  Modelled from the spec: the methods \<open>PrivateAddrV4\<close> and \<open>PrivateAddrV6\<close> of the
  peer type, not among the sources, give the ``allocated private addresses'' of the
  record (spec 3).
\<close>

definition PrivateAddrV4 :: "MeshNode \<Rightarrow> Prefix" where
  "PrivateAddrV4 node = PrivateIPv4 node"

definition PrivateAddrV6 :: "MeshNode \<Rightarrow> Prefix" where
  "PrivateAddrV6 node = PrivateIPv6 node"

text \<open>The event that the goroutine of \<open>Leave\<close> builds from the record it read.\<close>

definition leaveEvent :: "MeshNode \<Rightarrow> Event" where
  "leaveEvent leaving =
     \<lparr>Type = NODE_JOIN,
      Node = \<lparr>v1_Id = Id' leaving,
              v1_PrimaryEndpoint = PrimaryEndpoint leaving,
              v1_WireguardEndpoints = WireguardEndpoints leaving,
              v1_ZoneAwarenessId = ZoneAwarenessId leaving,
              v1_PublicKey = PublicKey leaving,
              v1_PrivateIpv4 = Prefix_String (PrivateAddrV4 leaving),
              v1_PrivateIpv6 = Prefix_String (PrivateAddrV6 leaving),
              v1_Features = Features leaving,
              v1_JoinedAt = JoinedAt leaving\<rparr>\<rparr>"

text \<open>
  The goroutine that \<open>Leave\<close> starts before it returns: \<open>emitted\<close> collects the
  events passed to \<open>Emit\<close>. An error of \<open>Emit\<close> is only logged, and logging is not
  part of the model.
\<close>

definition notifyWatchers :: "Server \<Rightarrow> MeshNode \<Rightarrow> Server" where
  "notifyWatchers s leaving =
     (case plugins s of
        None \<Rightarrow> s
      | Some m \<Rightarrow>
          if HasWatchers m then s\<lparr>emitted := emitted s @ [leaveEvent leaving]\<rparr> else s)"

text \<open>
  Lines 85 to 116 of \<open>Leave\<close>: the delete of the peer record, the start of the
  goroutine, the response.
\<close>

definition removeFromPeersDB ::
  "Server \<Rightarrow> LeaveRequest \<Rightarrow> MeshNode \<Rightarrow> (go_error + LeaveResponse) \<times> Server" where
  "removeFromPeersDB s req leaving =
     (case peers_Delete s (GetId req) of
        (Some err, s') \<Rightarrow> (Inl (Status Internal (''failed to delete peer: '' @ Error err)), s')
      | (None, s') \<Rightarrow> (Inr LeaveResponse, notifyWatchers s' leaving))"

text \<open>
  Lines 64 to 116: the lookup of the peer and what follows it. The deferred call of
  \<open>Barrier\<close> runs when the function returns, after everything else on the paths that
  registered it.
\<close>

definition removePeer ::
  "Server \<Rightarrow> LeaveRequest \<Rightarrow> (go_error + LeaveResponse) \<times> Server" where
  "removePeer s req =
     (case peers_Get s (GetId req) of
        (Inl err, s1) \<Rightarrow>
          if err = ErrNodeNotFound then (Inr LeaveResponse, s1)
          else (Inl (Status Internal (''failed to get peer: '' @ Error err)), s1)
      | (Inr leaving, s1) \<Rightarrow>
          if PortFor leaving RAFT \<noteq> 0 then
            (case raft_RemoveServer s1 (GetId req) False of
               (Some err, s2) \<Rightarrow>
                 (Inl (Status Internal (''failed to remove raft member: '' @ Error err)),
                  raft_Barrier s2 (Second * 15))
             | (None, s2) \<Rightarrow>
                 (case removeFromPeersDB s2 req leaving of
                    (res, s3) \<Rightarrow> (res, raft_Barrier s3 (Second * 15))))
          else removeFromPeersDB s1 req leaving)"

definition Leave ::
  "Server \<Rightarrow> Context \<Rightarrow> LeaveRequest \<Rightarrow> (go_error + LeaveResponse) \<times> Server" where
  "Leave s ctx req =
     (if \<not> IsInNetwork ctx then (Inl (Status PermissionDenied ''request is not in-network''), s)
      else if GetId req = [] then (Inl (Status InvalidArgument ''id is required''), s)
      else if \<not> IsLeader s then (Inl (Status FailedPrecondition ''not leader''), s)
      else if IsSecure s then
        (case ProxiedFor ctx of
           Some proxiedFor \<Rightarrow>
             if proxiedFor \<noteq> GetId req
             then (Inl (Status PermissionDenied
                         (''proxied for '' @ proxiedFor @ '', not '' @ GetId req)), s)
             else removePeer s req
         | None \<Rightarrow>
             (case AuthenticatedCallerFrom ctx of
                Some peer \<Rightarrow>
                  if peer \<noteq> GetId req
                  then (Inl (Status PermissionDenied
                              (''peer id '' @ peer @ '', not '' @ GetId req)), s)
                  else removePeer s req
              | None \<Rightarrow>
                  (Inl (Status PermissionDenied ''no peer authentication info in context''), s)))
      else removePeer s req)"

section \<open>Admin: network ACLs\<close>

record NetworkACL =
  Name :: string
  Priority :: int
  Action :: int
  SourceNodes :: "string list"
  DestinationNodes :: "string list"
  SourceCidrs :: "string list"
  DestinationCidrs :: "string list"

text \<open>
  The admin server. Leadership, the identifier check \<open>storageutil.IsValidID\<close>, the
  outcome of the RBAC evaluation for the ACL of a given name, the table
  \<open>v1.ACLAction_name\<close> and \<open>types.ValidateACL\<close> are not among the sources and are
  fields here; \<open>acls\<close> is the networking store, and the two faults are the errors
  that its next write and read end with (\<open>None\<close> for success).
\<close>

record admin_Server =
  Consensus_IsLeader :: bool
  IsValidID :: "string \<Rightarrow> bool"
  Evaluate :: "string \<Rightarrow> bool \<times> go_error option"
  ACLAction_name :: "int \<rightharpoonup> string"
  ValidateACL :: "NetworkACL \<Rightarrow> go_error option"
  acls :: "string \<rightharpoonup> NetworkACL"
  putACLFault :: "go_error option"
  getACLFault :: "go_error option"

text \<open>The error variable \<open>networking.ErrACLNotFound\<close>.\<close>

definition ErrACLNotFound :: go_error where
  "ErrACLNotFound = Sentinel ''networking.ErrACLNotFound''"

text \<open>
  Modelled from the spec: the networking store is not among the sources. Its typed
  accessors ``must round-trip: \<open>decode(encode(x)) == x\<close> for every valid entity''
  (spec 4.2) and the name ``is the primary key'' of an ACL (spec 3): a write that
  succeeds stores the ACL under its name.
\<close>

definition networking_PutNetworkACL :: "admin_Server \<Rightarrow> NetworkACL \<Rightarrow> go_error option \<times> admin_Server" where
  "networking_PutNetworkACL s acl =
     (case putACLFault s of
        Some err \<Rightarrow> (Some err, s)
      | None \<Rightarrow> (None, s\<lparr>acls := (acls s)(Name acl \<mapsto> acl)\<rparr>))"

text \<open>
  Modelled from the spec: the read of the networking store, not among the sources,
  returns the ACL stored under the name, fails with \<open>ErrACLNotFound\<close> when there is
  none (\<open>GetNetworkACL(name) \<rightarrow> ACL | NotFound\<close>, spec 6), or fails with the error of
  the storage.
\<close>

definition networking_GetNetworkACL :: "admin_Server \<Rightarrow> string \<Rightarrow> go_error + NetworkACL" where
  "networking_GetNetworkACL s name =
     (case getACLFault s of
        Some err \<Rightarrow> Inl err
      | None \<Rightarrow> (case acls s name of None \<Rightarrow> Inl ErrACLNotFound | Some acl \<Rightarrow> Inr acl))"

fun allEmpty :: "string list list \<Rightarrow> bool" where
  "allEmpty [] = True"
| "allEmpty (s # ss) = (if length s \<noteq> 0 then False else allEmpty ss)"

definition PutNetworkACL :: "admin_Server \<Rightarrow> NetworkACL \<Rightarrow> (go_error + unit) \<times> admin_Server" where
  "PutNetworkACL s acl =
     (if \<not> Consensus_IsLeader s then (Inl (Status FailedPrecondition ''not the leader''), s)
      else if Name acl = [] then (Inl (Status InvalidArgument ''acl name is required''), s)
      else if \<not> IsValidID s (Name acl)
        then (Inl (Status InvalidArgument ''acl name must be a valid ID''), s)
      else if \<not> fst (Evaluate s (Name acl))
        then (Inl (Status PermissionDenied
                    ''caller does not have permission to put network acls''), s)
      else if ACLAction_name s (Action acl) = None
        then (Inl (Status InvalidArgument ''invalid acl action''), s)
      else if allEmpty [DestinationCidrs acl, SourceCidrs acl, SourceNodes acl, DestinationNodes acl]
        then (Inl (Status InvalidArgument
                    ''at least one of destination_cidrs, source_cidrs, source_nodes, or destination_nodes must be set''), s)
      else case ValidateACL s acl of
             Some err \<Rightarrow> (Inl (Status InvalidArgument (Error err)), s)
           | None \<Rightarrow>
               (case networking_PutNetworkACL s acl of
                  (Some err, s') \<Rightarrow> (Inl (Status Internal (Error err)), s')
                | (None, s') \<Rightarrow> (Inr (), s')))"

text \<open>
  \<open>GetNetworkACL\<close>; the verb \<open>%q\<close> of the message is \<open>strconv.Quote\<close> of the
  standard library, the parameter \<open>Quote\<close>.
\<close>

definition GetNetworkACL ::
  "(string \<Rightarrow> string) \<Rightarrow> admin_Server \<Rightarrow> NetworkACL \<Rightarrow> go_error + NetworkACL" where
  "GetNetworkACL Quote s acl =
     (if Name acl = [] then Inl (Status InvalidArgument ''acl name is required'')
      else case networking_GetNetworkACL s (Name acl) of
             Inl err \<Rightarrow>
               if err = ErrACLNotFound
               then Inl (Status NotFound (''network acl '' @ Quote (Name acl) @ '' not found''))
               else Inl (Status Internal (Error err))
           | Inr out \<Rightarrow> Inr out)"

section \<open>The debug plugin\<close>

record debug_Plugin =
  debug_data :: "MeshStorage option"

text \<open>An HTTP response: the status code and the body written.\<close>

record Response =
  StatusCode :: nat
  Body :: string

text \<open>\<open>http.Error\<close> writes the status code and the message, followed by a newline.\<close>

definition http_Error :: "string \<Rightarrow> nat \<Rightarrow> Response" where
  "http_Error msg c = \<lparr>StatusCode = c, Body = msg @ [CHR 0x0A]\<rparr>"

definition StatusOK :: nat where "StatusOK = 200"
definition StatusBadRequest :: nat where "StatusBadRequest = 400"
definition StatusInternalServerError :: nat where "StatusInternalServerError = 500"
definition StatusNotImplemented :: nat where "StatusNotImplemented = 501"

fun Join :: "string list \<Rightarrow> string \<Rightarrow> string" where
  "Join [] sep = []"
| "Join [x] sep = x"
| "Join (x # y # ys) sep = x @ sep @ Join (y # ys) sep"

text \<open>The handlers, with the query parameter \<open>q\<close> of the request as the argument.\<close>

definition handleDBList :: "debug_Plugin \<Rightarrow> string \<Rightarrow> Response" where
  "handleDBList p q =
     (case debug_data p of
        None \<Rightarrow> http_Error ''plugin not configured'' StatusInternalServerError
      | Some d \<Rightarrow>
          (case List d q of
             Inl err \<Rightarrow> http_Error (Error err) StatusInternalServerError
           | Inr resp \<Rightarrow> \<lparr>StatusCode = StatusOK, Body = Join resp [CHR 0x0A]\<rparr>))"

text \<open>\<open>strings.TrimSpace\<close> is the parameter \<open>TrimSpace\<close>.\<close>

definition handleDBGet :: "(string \<Rightarrow> string) \<Rightarrow> debug_Plugin \<Rightarrow> string \<Rightarrow> Response" where
  "handleDBGet TrimSpace p q =
     (case debug_data p of
        None \<Rightarrow> http_Error ''plugin not configured'' StatusInternalServerError
      | Some d \<Rightarrow>
          if q = [] then http_Error ''missing key'' StatusBadRequest
          else (case GetValue d q of
                  Inl err \<Rightarrow> http_Error (Error err) StatusInternalServerError
                | Inr resp \<Rightarrow> \<lparr>StatusCode = StatusOK, Body = TrimSpace resp\<rparr>))"

definition handleDBIterPrefix :: "debug_Plugin \<Rightarrow> Response" where
  "handleDBIterPrefix p =
     (case debug_data p of
        None \<Rightarrow> http_Error ''plugin not configured'' StatusInternalServerError
      | Some d \<Rightarrow> http_Error ''not implemented'' StatusNotImplemented)"

section \<open>Notions used in the statements\<close>





text \<open>Whether the call \<open>a\<close> comes before the call \<open>b\<close> in a sequence of calls.\<close>

fun precedes :: "call \<Rightarrow> call \<Rightarrow> call list \<Rightarrow> bool" where
  "precedes a b [] = False"
| "precedes a b (c # cs) = (if c = a then b \<in> set cs else precedes a b cs)"

text \<open>The calls that a handler added to those made before it ran.\<close>

definition newCalls :: "Server \<Rightarrow> Server \<Rightarrow> call list" where
  "newCalls s s' = drop (length (calls s)) (calls s')"

text \<open>
  The caller's verified identity, as the spec's words read: the identity the request
  was proxied for when there is one, the authenticated peer otherwise.
\<close>

definition verifiedIdentity :: "Context \<Rightarrow> string option" where
  "verifiedIdentity ctx =
     (case ProxiedFor ctx of
        Some proxiedFor \<Rightarrow> Some proxiedFor
      | None \<Rightarrow> AuthenticatedCallerFrom ctx)"

text \<open>All four match sets of an ACL are empty.\<close>

definition noMatchSets :: "NetworkACL \<Rightarrow> bool" where
  "noMatchSets acl \<longleftrightarrow>
     SourceCidrs acl = [] \<and> DestinationCidrs acl = [] \<and> SourceNodes acl = [] \<and>
     DestinationNodes acl = []"

text \<open>The server after a sequence of \<open>PutNetworkACL\<close> requests.\<close>

definition PutAll :: "admin_Server \<Rightarrow> NetworkACL list \<Rightarrow> admin_Server" where
  "PutAll s puts = foldl (\<lambda>s' acl. snd (PutNetworkACL s' acl)) s puts"

section \<open>Example inputs\<close>

definition exNode :: "string \<Rightarrow> Prefix \<Rightarrow> Prefix \<Rightarrow> (Feature \<times> int) list \<Rightarrow> MeshNode" where
  "exNode i a4 a6 fs =
     \<lparr>Id' = i, PrimaryEndpoint = ''203.0.113.7'', WireguardEndpoints = [''203.0.113.7:51820''],
      ZoneAwarenessId = ''zone-a'', PublicKey = ''cHVibGljLWtleQ=='', PrivateIPv4 = a4,
      PrivateIPv6 = a6, Features = fs, JoinedAt = 1700000000\<rparr>"

definition exStorage :: "MeshNode list \<Rightarrow> MeshStorage" where
  "exStorage nodes =
     \<lparr>List = (\<lambda>prefix. Inr []), GetValue = (\<lambda>key. Inl (Errorf ''key not found'')),
      ListPeers = Inr nodes\<rparr>"

text \<open>The values of \<open>netip.ParsePrefix\<close> on the subnets of the examples.\<close>

definition exParsePrefix :: "string \<Rightarrow> go_error + Prefix" where
  "exParsePrefix s =
     (if s = ''fd00::/48'' then Inr (Prefix (V6 0xfd000000000000000000000000000000) 48)
      else if s = ''10.0.0.0/30'' then Inr (Prefix (V4 0x0A000000) 30)
      else if s = ''10.0.0.2/30'' then Inr (Prefix (V4 0x0A000002) 30)
      else Inl (Errorf ''netip.ParsePrefix: no example''))"

definition exDraws :: "nat \<Rightarrow> nat" where
  "exDraws i = (if i = 0 then 5 else if i = 1 then 6 else 7)"

definition exNodes6 :: "MeshNode list" where
  "exNodes6 = [exNode ''n1'' zeroPrefix (Prefix (V6 0xfd000000000000050000000000000000) 64) []]"

definition exPlugin6 :: Plugin where
  "exPlugin6 =
     \<lparr>config = \<lparr>StaticIPv4 = [], StaticIPv6 = [(''n9'', ''fd00:0:0:6::/64'')]\<rparr>,
      data = Some (exStorage exNodes6)\<rparr>"

definition exRequest6 :: AllocateIPRequest where
  "exRequest6 = \<lparr>NodeId = ''n2'', Subnet = ''fd00::/48'', Version = IP_VERSION_6\<rparr>"

definition exNodes4 :: "MeshNode list" where
  "exNodes4 = [exNode ''n1'' (Prefix (V4 0x0A000001) 32) zeroPrefix []]"

definition exPlugin4 :: Plugin where
  "exPlugin4 =
     \<lparr>config = \<lparr>StaticIPv4 = [(''n9'', ''10.0.0.2/32'')], StaticIPv6 = []\<rparr>,
      data = Some (exStorage exNodes4)\<rparr>"

definition exRequest4 :: AllocateIPRequest where
  "exRequest4 = \<lparr>NodeId = ''n2'', Subnet = ''10.0.0.0/30'', Version = IP_VERSION_4\<rparr>"

text \<open>The same mesh with every address of \<open>10.0.0.0/30\<close> after the first one taken.\<close>

definition exPluginFull :: Plugin where
  "exPluginFull =
     \<lparr>config = \<lparr>StaticIPv4 = [(''n9'', ''10.0.0.2/32''), (''n8'', ''10.0.0.3/32'')],
                 StaticIPv6 = []\<rparr>,
      data = Some (exStorage exNodes4)\<rparr>"

text \<open>A plugin without static assignments, on a mesh without peers.\<close>

definition exPluginEmpty :: Plugin where
  "exPluginEmpty =
     \<lparr>config = \<lparr>StaticIPv4 = [], StaticIPv6 = []\<rparr>, data = Some (exStorage [])\<rparr>"

definition exRequestUnmasked :: AllocateIPRequest where
  "exRequestUnmasked = \<lparr>NodeId = ''n2'', Subnet = ''10.0.0.2/30'', Version = IP_VERSION_4\<rparr>"

text \<open>A plugin whose query channel is not open yet.\<close>

definition exPluginUnconfigured :: Plugin where
  "exPluginUnconfigured =
     \<lparr>config = \<lparr>StaticIPv4 = [(''n2'', ''10.0.0.9/32'')], StaticIPv6 = []\<rparr>, data = None\<rparr>"

text \<open>A leader in secure mode with one watching plugin and the peer \<open>n1\<close>, a voter.\<close>

definition exLeaving :: MeshNode where
  "exLeaving = exNode ''n1'' (Prefix (V4 0x0A000001) 32)
     (Prefix (V6 0xfd000000000000050000000000000000) 64) [(MESH_API, 8443), (RAFT, 9443)]"

definition exServer :: Server where
  "exServer =
     \<lparr>IsLeader = True, IsSecure = True, plugins = Some \<lparr>HasWatchers = True\<rparr>,
      peers = [''n1'' \<mapsto> exLeaving], voters = [''n0'', ''n1''],
      getFault = None, removeServerFault = None, deleteFault = None,
      calls = [], emitted = []\<rparr>"

definition exContext :: "string \<Rightarrow> Context" where
  "exContext caller =
     \<lparr>IsInNetwork = True, ProxiedFor = None, AuthenticatedCallerFrom = Some caller\<rparr>"

text \<open>
  An admin server that leads, takes every non-empty name without a slash for a valid
  identifier and lets the caller put every ACL but the one named \<open>forbidden\<close>.
\<close>

definition exACL :: NetworkACL where
  "exACL =
     \<lparr>Name = ''allow-web'', Priority = 10, Action = 1, SourceNodes = [],
      DestinationNodes = [], SourceCidrs = [''10.0.0.0/24''], DestinationCidrs = []\<rparr>"

definition exAdmin :: admin_Server where
  "exAdmin =
     \<lparr>Consensus_IsLeader = True,
      IsValidID = (\<lambda>name. name \<noteq> [] \<and> list_all (\<lambda>c. c \<noteq> CHR ''/'') name),
      Evaluate = (\<lambda>name. (name \<noteq> ''forbidden'', None)),
      ACLAction_name = [0 \<mapsto> ''ACTION_UNKNOWN'', 1 \<mapsto> ''ACTION_ACCEPT'', 2 \<mapsto> ''ACTION_DENY''],
      ValidateACL = (\<lambda>acl. None),
      acls = Map.empty, putACLFault = None, getACLFault = None\<rparr>"

definition exQuote :: "string \<Rightarrow> string" where
  "exQuote name = [CHR 0x22] @ name @ [CHR 0x22]"

lemmas netip_eval = Prefix_String_def PrefixFrom_def IsValid_def string4_def string6_def
  Itoa.simps appendHex.simps digits_def v6u16_def Is4In6_def zeroPrefix_def
  withSubnet_def setByte_def PutUint16_def mask_eq_exp_minus_1
  zeroRun.simps zeroSpan.simps groups6.simps

lemmas example_defs = exNode_def exStorage_def exParsePrefix_def exDraws_def exNodes6_def
  exPlugin6_def exRequest6_def exNodes4_def exPlugin4_def exRequest4_def exPluginFull_def
  exPluginEmpty_def exRequestUnmasked_def

section \<open>IPv6 allocation\<close>













section \<open>IPv4 allocation\<close>
















lemma exRequest4_exhausted:
  "Allocate exParsePrefix exDraws exPluginFull exRequest4 =
     Inl (Errorf ''find next available IPv4: no more addresses in 10.0.0.0/30'')"
  by (simp add: Allocate_def allocateV4_def allocatedV4_def next32_def next32_loop.simps
      isStaticAllocation_def hasValue_def example_defs netip_eval)



section \<open>Leave\<close>

lemma removePeer_frame:
  "IsLeader (snd (removePeer s req)) = IsLeader s \<and> IsSecure (snd (removePeer s req)) = IsSecure s \<and>
   getFault (snd (removePeer s req)) = getFault s \<and> plugins (snd (removePeer s req)) = plugins s"
  by (auto simp: removePeer_def removeFromPeersDB_def peers_Get_def peers_Delete_def
      raft_RemoveServer_def raft_Barrier_def notifyWatchers_def Let_def
      split: option.splits sum.splits prod.splits if_splits)

lemma Leave_passes:
  assumes "IsInNetwork ctx" and "GetId req \<noteq> []" and "IsLeader s"
    and "IsSecure s \<longrightarrow> verifiedIdentity ctx = Some (GetId req)"
  shows "Leave s ctx req = removePeer s req"
  using assms by (auto simp: Leave_def verifiedIdentity_def split: option.splits)

lemma Leave_success_passes:
  assumes "fst (Leave s ctx req) = Inr LeaveResponse"
  shows "IsInNetwork ctx \<and> GetId req \<noteq> [] \<and> IsLeader s \<and>
         (IsSecure s \<longrightarrow> verifiedIdentity ctx = Some (GetId req)) \<and>
         Leave s ctx req = removePeer s req"
  using assms by (auto simp: Leave_def verifiedIdentity_def split: option.splits if_splits)

lemma removePeer_absent:
  assumes "fst (peers_Get s (GetId req)) = Inl ErrNodeNotFound"
  shows "removePeer s req = (Inr LeaveResponse, s\<lparr>calls := calls s @ [PeersGet (GetId req)]\<rparr>)"
  using assms
  by (auto simp: removePeer_def peers_Get_def Let_def split: option.splits)

lemma removePeer_success_absent_after:
  assumes "fst (removePeer s req) = Inr LeaveResponse"
  shows "fst (peers_Get (snd (removePeer s req)) (GetId req)) = Inl ErrNodeNotFound"
  using assms
  by (auto simp: removePeer_def removeFromPeersDB_def peers_Get_def peers_Delete_def
      raft_RemoveServer_def raft_Barrier_def notifyWatchers_def Let_def
      split: option.splits sum.splits prod.splits if_splits)

lemma removePeer_raft_calls:
  assumes "fst (peers_Get s (GetId req)) = Inr leaving" and "PortFor leaving RAFT \<noteq> 0"
  shows "newCalls s (snd (removePeer s req)) =
           (if removeServerFault s \<noteq> None
            then [PeersGet (GetId req), RaftRemoveServer (GetId req) False, RaftBarrier (Second * 15)]
            else [PeersGet (GetId req), RaftRemoveServer (GetId req) False, PeersDelete (GetId req),
                  RaftBarrier (Second * 15)])"
  using assms
  by (auto simp: newCalls_def removePeer_def removeFromPeersDB_def peers_Get_def peers_Delete_def
      raft_RemoveServer_def raft_Barrier_def notifyWatchers_def Let_def
      split: option.splits sum.splits prod.splits if_splits)

lemma Leave_calls_cases:
  "Leave s ctx req = removePeer s req \<or> newCalls s (snd (Leave s ctx req)) = []"
  by (auto simp: Leave_def newCalls_def split: option.splits)

lemma exLeave_n1:
  "Leave exServer (exContext ''n1'') (LeaveRequest ''n1'') =
     (Inr LeaveResponse,
      exServer\<lparr>peers := Map.empty, voters := [''n0''],
        calls := [PeersGet ''n1'', RaftRemoveServer ''n1'' False, PeersDelete ''n1'',
                  RaftBarrier 15000000000],
        emitted := [leaveEvent exLeaving]\<rparr>)"
  by (simp add: Leave_def removePeer_def removeFromPeersDB_def peers_Get_def peers_Delete_def
      raft_RemoveServer_def raft_Barrier_def notifyWatchers_def PortFor_def Second_def
      exServer_def exContext_def exLeaving_def exNode_def)




text \<open>
  Claim C4, as amended. On the leader, with security enabled, a request whose non-empty
  target id is not the caller's verified identity (or that carries no identity at all)
  is answered with \<open>PermissionDenied\<close>, and the server is returned as it was. This
  holds for a caller outside the mesh network as well, who is answered
  \<open>PermissionDenied\<close> by the first check.
\<close>

theorem Leave_identity_mismatch:
  assumes "IsLeader s" and "IsSecure s" and "GetId req \<noteq> []"
    and "verifiedIdentity ctx \<noteq> Some (GetId req)"
  shows "\<exists>msg. Leave s ctx req = (Inl (Status PermissionDenied msg), s)"
  using assms
  by (auto simp: Leave_def verifiedIdentity_def split: option.splits)


theorem Leave_identity_mismatch_witness:
  "IsLeader exServer \<and> IsSecure exServer \<and> GetId (LeaveRequest ''n1'') \<noteq> [] \<and>
   verifiedIdentity (exContext ''n2'') \<noteq> Some (GetId (LeaveRequest ''n1'')) \<and>
   Leave exServer (exContext ''n2'') (LeaveRequest ''n1'') =
     (Inl (Status PermissionDenied ''peer id n2, not n1''), exServer)"
proof -
  have h: "IsLeader exServer" "IsSecure exServer" "GetId (LeaveRequest ''n1'') \<noteq> []"
    "verifiedIdentity (exContext ''n2'') \<noteq> Some (GetId (LeaveRequest ''n1''))"
    by (simp_all add: exServer_def exContext_def verifiedIdentity_def)
  from Leave_identity_mismatch [OF h]
  obtain msg where "Leave exServer (exContext ''n2'') (LeaveRequest ''n1'') =
      (Inl (Status PermissionDenied msg), exServer)"
    by blast
  moreover have "fst (Leave exServer (exContext ''n2'') (LeaveRequest ''n1'')) =
      Inl (Status PermissionDenied ''peer id n2, not n1'')"
    by (simp add: Leave_def exServer_def exContext_def)
  ultimately show ?thesis using h by simp
qed

text \<open>
  The claim as stated fails on a server that is not the leader: the leadership check
  comes before the identity check, and the caller \<open>n2\<close> who asks for the removal of
  \<open>n1\<close> is answered \<open>FailedPrecondition\<close>.
\<close>

theorem Leave_identity_mismatch_counterexample:
  "IsSecure (exServer\<lparr>IsLeader := False\<rparr>) \<and>
   verifiedIdentity (exContext ''n2'') = Some ''n2'' \<and> ''n2'' \<noteq> ''n1'' \<and>
   Leave (exServer\<lparr>IsLeader := False\<rparr>) (exContext ''n2'') (LeaveRequest ''n1'') =
     (Inl (Status FailedPrecondition ''not leader''), exServer\<lparr>IsLeader := False\<rparr>) \<and>
   status_Code (Status FailedPrecondition ''not leader'') \<noteq> PermissionDenied"
  by (simp add: Leave_def exServer_def exContext_def verifiedIdentity_def)


text \<open>
  Claim C5, as amended. A request that passes the checks of the handler (caller in the
  network, non-empty id, server is the leader, and with security enabled the caller's
  verified identity is the id) and whose target the peers store does not hold is
  answered with success; the server differs only by the recorded lookup. A second
  \<open>Leave\<close> after a successful one, from the same caller for the same id, succeeds
  as well and changes nothing but the recorded lookup.
\<close>

theorem Leave_absent_peer:
  "(IsInNetwork ctx \<and> GetId req \<noteq> [] \<and> IsLeader s \<and>
    (IsSecure s \<longrightarrow> verifiedIdentity ctx = Some (GetId req)) \<and>
    getFault s = None \<and> peers s (GetId req) = None \<longrightarrow>
      Leave s ctx req = (Inr LeaveResponse, s\<lparr>calls := calls s @ [PeersGet (GetId req)]\<rparr>)) \<and>
   (fst (Leave s ctx req) = Inr LeaveResponse \<longrightarrow>
      Leave (snd (Leave s ctx req)) ctx req =
        (Inr LeaveResponse,
         (snd (Leave s ctx req))\<lparr>calls := calls (snd (Leave s ctx req)) @ [PeersGet (GetId req)]\<rparr>))"
proof (intro conjI impI)
  assume a: "IsInNetwork ctx \<and> GetId req \<noteq> [] \<and> IsLeader s \<and>
    (IsSecure s \<longrightarrow> verifiedIdentity ctx = Some (GetId req)) \<and>
    getFault s = None \<and> peers s (GetId req) = None"
  then have "fst (peers_Get s (GetId req)) = Inl ErrNodeNotFound"
    by (simp add: peers_Get_def Let_def)
  then have "removePeer s req = (Inr LeaveResponse, s\<lparr>calls := calls s @ [PeersGet (GetId req)]\<rparr>)"
    by (rule removePeer_absent)
  with a show "Leave s ctx req = (Inr LeaveResponse, s\<lparr>calls := calls s @ [PeersGet (GetId req)]\<rparr>)"
    by (simp add: Leave_passes)
next
  let ?s1 = "snd (Leave s ctx req)"
  assume ok: "fst (Leave s ctx req) = Inr LeaveResponse"
  from Leave_success_passes [OF ok]
  have pass: "IsInNetwork ctx" "GetId req \<noteq> []" "IsLeader s"
    "IsSecure s \<longrightarrow> verifiedIdentity ctx = Some (GetId req)"
    and eq: "Leave s ctx req = removePeer s req"
    by simp_all
  from removePeer_frame [of s req] eq pass
  have pass1: "IsLeader ?s1" "IsSecure ?s1 \<longrightarrow> verifiedIdentity ctx = Some (GetId req)"
    by simp_all
  from ok eq have "fst (removePeer s req) = Inr LeaveResponse" by simp
  then have "fst (peers_Get (snd (removePeer s req)) (GetId req)) = Inl ErrNodeNotFound"
    by (rule removePeer_success_absent_after)
  with eq have "fst (peers_Get ?s1 (GetId req)) = Inl ErrNodeNotFound" by simp
  then have "removePeer ?s1 req = (Inr LeaveResponse, ?s1\<lparr>calls := calls ?s1 @ [PeersGet (GetId req)]\<rparr>)"
    by (rule removePeer_absent)
  with Leave_passes [OF pass(1,2) pass1]
  show "Leave ?s1 ctx req = (Inr LeaveResponse, ?s1\<lparr>calls := calls ?s1 @ [PeersGet (GetId req)]\<rparr>)"
    by simp
qed


theorem Leave_absent_peer_witness:
  "IsInNetwork (exContext ''n7'') \<and> GetId (LeaveRequest ''n7'') \<noteq> [] \<and> IsLeader exServer \<and>
   IsSecure exServer \<and> verifiedIdentity (exContext ''n7'') = Some (GetId (LeaveRequest ''n7'')) \<and>
   getFault exServer = None \<and> peers exServer (GetId (LeaveRequest ''n7'')) = None \<and>
   Leave exServer (exContext ''n7'') (LeaveRequest ''n7'') =
     (Inr LeaveResponse, exServer\<lparr>calls := calls exServer @ [PeersGet (GetId (LeaveRequest ''n7''))]\<rparr>) \<and>
   fst (Leave exServer (exContext ''n1'') (LeaveRequest ''n1'')) = Inr LeaveResponse \<and>
   fst (Leave (snd (Leave exServer (exContext ''n1'') (LeaveRequest ''n1''))) (exContext ''n1'')
          (LeaveRequest ''n1'')) = Inr LeaveResponse \<and>
   peers (snd (Leave (snd (Leave exServer (exContext ''n1'') (LeaveRequest ''n1''))) (exContext ''n1'')
          (LeaveRequest ''n1''))) = peers (snd (Leave exServer (exContext ''n1'') (LeaveRequest ''n1'')))"
proof -
  have h: "IsInNetwork (exContext ''n7'') \<and> GetId (LeaveRequest ''n7'') \<noteq> [] \<and> IsLeader exServer \<and>
     (IsSecure exServer \<longrightarrow> verifiedIdentity (exContext ''n7'') = Some (GetId (LeaveRequest ''n7''))) \<and>
     getFault exServer = None \<and> peers exServer (GetId (LeaveRequest ''n7'')) = None"
    by (simp add: exServer_def exContext_def verifiedIdentity_def)
  have ok: "fst (Leave exServer (exContext ''n1'') (LeaveRequest ''n1'')) = Inr LeaveResponse"
    by (simp add: exLeave_n1)
  from Leave_absent_peer [of "exContext ''n7''" "LeaveRequest ''n7''" exServer] h
  have a: "Leave exServer (exContext ''n7'') (LeaveRequest ''n7'') =
     (Inr LeaveResponse, exServer\<lparr>calls := calls exServer @ [PeersGet (GetId (LeaveRequest ''n7''))]\<rparr>)"
    by blast
  from Leave_absent_peer [of "exContext ''n1''" "LeaveRequest ''n1''" exServer] ok
  have b: "Leave (snd (Leave exServer (exContext ''n1'') (LeaveRequest ''n1''))) (exContext ''n1'')
             (LeaveRequest ''n1'') =
        (Inr LeaveResponse,
         (snd (Leave exServer (exContext ''n1'') (LeaveRequest ''n1'')))
           \<lparr>calls := calls (snd (Leave exServer (exContext ''n1'') (LeaveRequest ''n1''))) @
              [PeersGet (GetId (LeaveRequest ''n1''))]\<rparr>)"
    by blast
  have sec: "IsSecure exServer \<and> verifiedIdentity (exContext ''n7'') = Some (GetId (LeaveRequest ''n7''))"
    by (simp add: exServer_def exContext_def verifiedIdentity_def)
  from h ok a sec show ?thesis by (simp add: b)
qed

text \<open>
  The claim as stated fails for a request that does not pass the checks: on a server
  that is not the leader the request for the absent peer \<open>n7\<close> is answered
  \<open>FailedPrecondition\<close>, not success.
\<close>

theorem Leave_absent_peer_counterexample:
  "peers (exServer\<lparr>IsLeader := False\<rparr>) ''n7'' = None \<and>
   Leave (exServer\<lparr>IsLeader := False\<rparr>) (exContext ''n7'') (LeaveRequest ''n7'') =
     (Inl (Status FailedPrecondition ''not leader''), exServer\<lparr>IsLeader := False\<rparr>)"
  by (simp add: Leave_def exServer_def exContext_def)


text \<open>
  Claim C1, as amended. When the peer that \<open>Leave\<close> looked up has a Raft port and the
  delete of its record is issued, the server made exactly four calls: the lookup, the
  removal from the consensus group, the delete of the record and the barrier with a
  timeout of 15 seconds. The removal succeeded and comes before the delete, never
  after it; the barrier is deferred to the return of the handler and so comes after the
  delete, never before it. When the removal fails, the record is not deleted.
\<close>

theorem Leave_raft_removal_order:
  assumes "fst (peers_Get s (GetId req)) = Inr leaving" and "PortFor leaving RAFT \<noteq> 0"
  shows "(PeersDelete (GetId req) \<in> set (newCalls s (snd (Leave s ctx req))) \<longrightarrow>
            newCalls s (snd (Leave s ctx req)) =
              [PeersGet (GetId req), RaftRemoveServer (GetId req) False, PeersDelete (GetId req),
               RaftBarrier 15000000000] \<and>
            removeServerFault s = None \<and>
            precedes (RaftRemoveServer (GetId req) False) (PeersDelete (GetId req))
              (newCalls s (snd (Leave s ctx req))) \<and>
            \<not> precedes (PeersDelete (GetId req)) (RaftRemoveServer (GetId req) False)
              (newCalls s (snd (Leave s ctx req))) \<and>
            precedes (PeersDelete (GetId req)) (RaftBarrier 15000000000)
              (newCalls s (snd (Leave s ctx req))) \<and>
            \<not> precedes (RaftBarrier 15000000000) (PeersDelete (GetId req))
              (newCalls s (snd (Leave s ctx req)))) \<and>
         (removeServerFault s \<noteq> None \<longrightarrow>
            PeersDelete (GetId req) \<notin> set (newCalls s (snd (Leave s ctx req))))"
proof (intro conjI impI)
  assume del: "PeersDelete (GetId req) \<in> set (newCalls s (snd (Leave s ctx req)))"
  with Leave_calls_cases [of s ctx req]
  have eq: "Leave s ctx req = removePeer s req" by auto
  from removePeer_raft_calls [OF assms] del eq
  show nofault: "removeServerFault s = None"
    by (auto split: if_splits)
  with removePeer_raft_calls [OF assms] eq
  show tr: "newCalls s (snd (Leave s ctx req)) =
           [PeersGet (GetId req), RaftRemoveServer (GetId req) False, PeersDelete (GetId req),
            RaftBarrier 15000000000]"
    by (simp add: Second_def)
  show "precedes (RaftRemoveServer (GetId req) False) (PeersDelete (GetId req))
          (newCalls s (snd (Leave s ctx req)))"
    unfolding tr by simp
  show "\<not> precedes (PeersDelete (GetId req)) (RaftRemoveServer (GetId req) False)
          (newCalls s (snd (Leave s ctx req)))"
    unfolding tr by simp
  show "precedes (PeersDelete (GetId req)) (RaftBarrier 15000000000)
          (newCalls s (snd (Leave s ctx req)))"
    unfolding tr by simp
  show "\<not> precedes (RaftBarrier 15000000000) (PeersDelete (GetId req))
          (newCalls s (snd (Leave s ctx req)))"
    unfolding tr by simp
next
  assume fault: "removeServerFault s \<noteq> None"
  show "PeersDelete (GetId req) \<notin> set (newCalls s (snd (Leave s ctx req)))"
  proof (cases "Leave s ctx req = removePeer s req")
    case True
    with removePeer_raft_calls [OF assms] fault show ?thesis by simp
  next
    case False
    with Leave_calls_cases [of s ctx req] show ?thesis by simp
  qed
qed

theorem Leave_raft_removal_order_witness:
  "fst (peers_Get exServer (GetId (LeaveRequest ''n1''))) = Inr exLeaving \<and>
   PortFor exLeaving RAFT \<noteq> 0 \<and>
   PeersDelete (GetId (LeaveRequest ''n1'')) \<in>
     set (newCalls exServer (snd (Leave exServer (exContext ''n1'') (LeaveRequest ''n1'')))) \<and>
   newCalls exServer (snd (Leave exServer (exContext ''n1'') (LeaveRequest ''n1''))) =
     [PeersGet ''n1'', RaftRemoveServer ''n1'' False, PeersDelete ''n1'', RaftBarrier 15000000000]"
proof -
  have h1: "fst (peers_Get exServer (GetId (LeaveRequest ''n1''))) = Inr exLeaving"
    by (simp add: peers_Get_def exServer_def)
  have h2: "PortFor exLeaving RAFT \<noteq> 0"
    by (simp add: PortFor_def exLeaving_def exNode_def)
  have h3: "PeersDelete (GetId (LeaveRequest ''n1'')) \<in>
     set (newCalls exServer (snd (Leave exServer (exContext ''n1'') (LeaveRequest ''n1''))))"
    by (simp add: exLeave_n1 newCalls_def) (simp add: exServer_def)
  from Leave_raft_removal_order [OF h1 h2, of "exContext ''n1''"] h1 h2 h3 show ?thesis by simp
qed

text \<open>
  The claim as stated has the barrier complete before the record is deleted. For the
  voter \<open>n1\<close> that leaves on its own request the calls are the lookup, the removal,
  the delete and then the barrier.
\<close>

theorem Leave_barrier_before_delete_counterexample:
  "PortFor exLeaving RAFT = 9443 \<and>
   peers exServer ''n1'' = Some exLeaving \<and>
   fst (Leave exServer (exContext ''n1'') (LeaveRequest ''n1'')) = Inr LeaveResponse \<and>
   calls (snd (Leave exServer (exContext ''n1'') (LeaveRequest ''n1''))) =
     [PeersGet ''n1'', RaftRemoveServer ''n1'' False, PeersDelete ''n1'', RaftBarrier 15000000000] \<and>
   \<not> precedes (RaftBarrier 15000000000) (PeersDelete ''n1'')
       (calls (snd (Leave exServer (exContext ''n1'') (LeaveRequest ''n1'')))) \<and>
   precedes (PeersDelete ''n1'') (RaftBarrier 15000000000)
       (calls (snd (Leave exServer (exContext ''n1'') (LeaveRequest ''n1''))))"
  by (simp add: exLeave_n1) (simp add: PortFor_def exLeaving_def exNode_def exServer_def)

text \<open>
  Claim C10. When \<open>Leave\<close> succeeds for the peer it looked up and a plugin watches,
  the handler emits one event: its type is \<open>NODE_JOIN\<close>, which is not the type for
  a leaving node, and its node carries the id, the endpoints, the zone awareness id,
  the public key, the two private addresses as strings, the features and the join
  timestamp of the record that was read; that record is the one the store held before
  the call, and the store holds none for the id afterwards.
\<close>

theorem Leave_event:
  assumes "fst (peers_Get s (GetId req)) = Inr leaving"
    and "fst (Leave s ctx req) = Inr LeaveResponse"
    and "plugins s = Some m" and "HasWatchers m"
  shows "emitted (snd (Leave s ctx req)) = emitted s @
           [\<lparr>Type = NODE_JOIN,
             Node = \<lparr>v1_Id = Id' leaving,
                     v1_PrimaryEndpoint = PrimaryEndpoint leaving,
                     v1_WireguardEndpoints = WireguardEndpoints leaving,
                     v1_ZoneAwarenessId = ZoneAwarenessId leaving,
                     v1_PublicKey = PublicKey leaving,
                     v1_PrivateIpv4 = Prefix_String (PrivateIPv4 leaving),
                     v1_PrivateIpv6 = Prefix_String (PrivateIPv6 leaving),
                     v1_Features = Features leaving,
                     v1_JoinedAt = JoinedAt leaving\<rparr>\<rparr>] \<and>
         NODE_JOIN \<noteq> NODE_LEAVE \<and>
         (getFault s = None \<longrightarrow> peers s (GetId req) = Some leaving) \<and>
         peers (snd (Leave s ctx req)) (GetId req) = None"
proof -
  from Leave_success_passes [OF assms(2)]
  have eq: "Leave s ctx req = removePeer s req" by simp
  with assms(2) have ok: "fst (removePeer s req) = Inr LeaveResponse" by simp
  from assms(1) ok assms(3,4)
  have "emitted (snd (removePeer s req)) = emitted s @ [leaveEvent leaving] \<and>
        (getFault s = None \<longrightarrow> peers s (GetId req) = Some leaving) \<and>
        peers (snd (removePeer s req)) (GetId req) = None"
    by (auto simp: removePeer_def removeFromPeersDB_def peers_Get_def peers_Delete_def
      raft_RemoveServer_def raft_Barrier_def notifyWatchers_def Let_def
      split: option.splits sum.splits prod.splits if_splits)
  with eq show ?thesis
    by (simp add: leaveEvent_def PrivateAddrV4_def PrivateAddrV6_def)
qed


theorem Leave_event_witness:
  "fst (peers_Get exServer (GetId (LeaveRequest ''n1''))) = Inr exLeaving \<and>
   fst (Leave exServer (exContext ''n1'') (LeaveRequest ''n1'')) = Inr LeaveResponse \<and>
   plugins exServer = Some \<lparr>HasWatchers = True\<rparr> \<and> HasWatchers \<lparr>HasWatchers = True\<rparr> \<and>
   emitted (snd (Leave exServer (exContext ''n1'') (LeaveRequest ''n1''))) =
     [\<lparr>Type = NODE_JOIN,
       Node = \<lparr>v1_Id = ''n1'',
               v1_PrimaryEndpoint = ''203.0.113.7'',
               v1_WireguardEndpoints = [''203.0.113.7:51820''],
               v1_ZoneAwarenessId = ''zone-a'',
               v1_PublicKey = ''cHVibGljLWtleQ=='',
               v1_PrivateIpv4 = ''10.0.0.1/32'',
               v1_PrivateIpv6 = ''fd00:0:0:5::/64'',
               v1_Features = [(MESH_API, 8443), (RAFT, 9443)],
               v1_JoinedAt = 1700000000\<rparr>\<rparr>]"
proof -
  have h1: "fst (peers_Get exServer (GetId (LeaveRequest ''n1''))) = Inr exLeaving"
    by (simp add: peers_Get_def exServer_def)
  have h2: "fst (Leave exServer (exContext ''n1'') (LeaveRequest ''n1'')) = Inr LeaveResponse"
    by (simp add: exLeave_n1)
  have h3: "plugins exServer = Some \<lparr>HasWatchers = True\<rparr>"
    by (simp add: exServer_def)
  have h4: "HasWatchers \<lparr>HasWatchers = True\<rparr>" by simp
  have e: "emitted exServer = []" by (simp add: exServer_def)
  have s4: "Prefix_String (PrivateIPv4 exLeaving) = ''10.0.0.1/32''"
    by (simp add: exLeaving_def exNode_def netip_eval)
  have s6: "Prefix_String (PrivateIPv6 exLeaving) = ''fd00:0:0:5::/64''"
    by (simp add: exLeaving_def exNode_def netip_eval)
  have fields: "Id' exLeaving = ''n1'' \<and> PrimaryEndpoint exLeaving = ''203.0.113.7'' \<and>
      WireguardEndpoints exLeaving = [''203.0.113.7:51820''] \<and> ZoneAwarenessId exLeaving = ''zone-a'' \<and>
      PublicKey exLeaving = ''cHVibGljLWtleQ=='' \<and> Features exLeaving = [(MESH_API, 8443), (RAFT, 9443)] \<and>
      JoinedAt exLeaving = 1700000000"
    by (simp add: exLeaving_def exNode_def)
  from Leave_event [OF h1 h2 h3 h4] h1 h2 h3 h4 show ?thesis
    by (simp add: e s4 s6 fields)
qed

section \<open>Network ACLs\<close>

lemma allEmpty_fields:
  "allEmpty [DestinationCidrs acl, SourceCidrs acl, SourceNodes acl, DestinationNodes acl] \<longleftrightarrow>
     noMatchSets acl"
  by (auto simp: noMatchSets_def)

lemma PutNetworkACL_frame:
  "getACLFault (snd (PutNetworkACL s acl)) = getACLFault s \<and>
   (name \<noteq> Name acl \<longrightarrow> acls (snd (PutNetworkACL s acl)) name = acls s name)"
  by (auto simp: PutNetworkACL_def networking_PutNetworkACL_def split: option.splits)

lemma PutAll_never_put:
  "name \<notin> Name ` set puts \<Longrightarrow>
   getACLFault (PutAll s puts) = getACLFault s \<and> acls (PutAll s puts) name = acls s name"
proof (induction puts arbitrary: s)
  case Nil
  show ?case by (simp add: PutAll_def)
next
  case (Cons acl puts)
  then have "name \<noteq> Name acl" and rest: "name \<notin> Name ` set puts" by auto
  with PutNetworkACL_frame [of s acl name]
  have step: "getACLFault (snd (PutNetworkACL s acl)) = getACLFault s"
    "acls (snd (PutNetworkACL s acl)) name = acls s name"
    by simp_all
  have "PutAll s (acl # puts) = PutAll (snd (PutNetworkACL s acl)) puts"
    by (simp add: PutAll_def)
  with Cons.IH [OF rest, of "snd (PutNetworkACL s acl)"] step show ?case by simp
qed

text \<open>
  Claim C7, as amended. \<open>PutNetworkACL\<close> answers \<open>FailedPrecondition\<close> on a server
  that is not the leader. On the leader it answers \<open>InvalidArgument\<close> when the name is
  empty or not a valid identifier, and also when all four match sets are empty and the
  caller is authorized to put the ACL of that name. A request with four empty match
  sets fails in every case, and every one of these answers leaves the server as it
  was.
\<close>

theorem PutNetworkACL_rejections:
  "(\<not> Consensus_IsLeader s \<longrightarrow>
      PutNetworkACL s acl = (Inl (Status FailedPrecondition ''not the leader''), s)) \<and>
   (Consensus_IsLeader s \<and> (Name acl = [] \<or> \<not> IsValidID s (Name acl)) \<longrightarrow>
      (\<exists>msg. PutNetworkACL s acl = (Inl (Status InvalidArgument msg), s))) \<and>
   (Consensus_IsLeader s \<and> fst (Evaluate s (Name acl)) \<and> noMatchSets acl \<longrightarrow>
      (\<exists>msg. PutNetworkACL s acl = (Inl (Status InvalidArgument msg), s))) \<and>
   (noMatchSets acl \<longrightarrow> (\<exists>err. PutNetworkACL s acl = (Inl err, s)))"
  by (auto simp: PutNetworkACL_def allEmpty_fields simp del: allEmpty.simps)

theorem PutNetworkACL_rejections_witness:
  "\<not> Consensus_IsLeader (exAdmin\<lparr>Consensus_IsLeader := False\<rparr>) \<and>
   PutNetworkACL (exAdmin\<lparr>Consensus_IsLeader := False\<rparr>) exACL =
     (Inl (Status FailedPrecondition ''not the leader''), exAdmin\<lparr>Consensus_IsLeader := False\<rparr>) \<and>
   Consensus_IsLeader exAdmin \<and> \<not> IsValidID exAdmin (Name (exACL\<lparr>Name := ''a/b''\<rparr>)) \<and>
   PutNetworkACL exAdmin (exACL\<lparr>Name := ''a/b''\<rparr>) =
     (Inl (Status InvalidArgument ''acl name must be a valid ID''), exAdmin) \<and>
   fst (Evaluate exAdmin (Name (exACL\<lparr>SourceCidrs := []\<rparr>))) \<and> noMatchSets (exACL\<lparr>SourceCidrs := []\<rparr>) \<and>
   PutNetworkACL exAdmin (exACL\<lparr>SourceCidrs := []\<rparr>) =
     (Inl (Status InvalidArgument
        ''at least one of destination_cidrs, source_cidrs, source_nodes, or destination_nodes must be set''),
      exAdmin)"
proof -
  have h1: "\<not> Consensus_IsLeader (exAdmin\<lparr>Consensus_IsLeader := False\<rparr>)" by simp
  have h2: "Consensus_IsLeader exAdmin \<and>
      (Name (exACL\<lparr>Name := ''a/b''\<rparr>) = [] \<or> \<not> IsValidID exAdmin (Name (exACL\<lparr>Name := ''a/b''\<rparr>)))"
    by (simp add: exAdmin_def)
  have h3: "Consensus_IsLeader exAdmin \<and> fst (Evaluate exAdmin (Name (exACL\<lparr>SourceCidrs := []\<rparr>))) \<and>
      noMatchSets (exACL\<lparr>SourceCidrs := []\<rparr>)"
    by (simp add: exAdmin_def exACL_def noMatchSets_def)
  from PutNetworkACL_rejections [of "exAdmin\<lparr>Consensus_IsLeader := False\<rparr>" exACL] h1
  have c1: "PutNetworkACL (exAdmin\<lparr>Consensus_IsLeader := False\<rparr>) exACL =
     (Inl (Status FailedPrecondition ''not the leader''), exAdmin\<lparr>Consensus_IsLeader := False\<rparr>)"
    by blast
  from PutNetworkACL_rejections [of exAdmin "exACL\<lparr>Name := ''a/b''\<rparr>"] h2
  obtain msg2 where c2: "PutNetworkACL exAdmin (exACL\<lparr>Name := ''a/b''\<rparr>) =
      (Inl (Status InvalidArgument msg2), exAdmin)"
    by blast
  have m2: "fst (PutNetworkACL exAdmin (exACL\<lparr>Name := ''a/b''\<rparr>)) =
      Inl (Status InvalidArgument ''acl name must be a valid ID'')"
    by (simp add: PutNetworkACL_def exAdmin_def exACL_def)
  from PutNetworkACL_rejections [of exAdmin "exACL\<lparr>SourceCidrs := []\<rparr>"] h3
  obtain msg3 where c3: "PutNetworkACL exAdmin (exACL\<lparr>SourceCidrs := []\<rparr>) =
      (Inl (Status InvalidArgument msg3), exAdmin)"
    by blast
  have m3: "fst (PutNetworkACL exAdmin (exACL\<lparr>SourceCidrs := []\<rparr>)) =
      Inl (Status InvalidArgument
        ''at least one of destination_cidrs, source_cidrs, source_nodes, or destination_nodes must be set'')"
    by (simp add: PutNetworkACL_def exAdmin_def exACL_def)
  from c2 m2 have c2': "PutNetworkACL exAdmin (exACL\<lparr>Name := ''a/b''\<rparr>) =
     (Inl (Status InvalidArgument ''acl name must be a valid ID''), exAdmin)"
    by simp
  from c3 m3 have c3': "PutNetworkACL exAdmin (exACL\<lparr>SourceCidrs := []\<rparr>) =
     (Inl (Status InvalidArgument
        ''at least one of destination_cidrs, source_cidrs, source_nodes, or destination_nodes must be set''),
      exAdmin)"
    by simp
  from h1 h2 h3 c1 c2' c3' show ?thesis by simp
qed

text \<open>
  The claim as stated fails for a caller without the grant: on the leader, the request
  to put the ACL named \<open>forbidden\<close>, a valid identifier, with four empty match sets is
  answered \<open>PermissionDenied\<close>, since the authorization check comes before the check
  of the match sets.
\<close>

theorem PutNetworkACL_unauthorized_counterexample:
  "Consensus_IsLeader exAdmin \<and>
   Name (exACL\<lparr>Name := ''forbidden'', SourceCidrs := []\<rparr>) \<noteq> [] \<and>
   IsValidID exAdmin (Name (exACL\<lparr>Name := ''forbidden'', SourceCidrs := []\<rparr>)) \<and>
   noMatchSets (exACL\<lparr>Name := ''forbidden'', SourceCidrs := []\<rparr>) \<and>
   PutNetworkACL exAdmin (exACL\<lparr>Name := ''forbidden'', SourceCidrs := []\<rparr>) =
     (Inl (Status PermissionDenied ''caller does not have permission to put network acls''), exAdmin) \<and>
   PermissionDenied \<noteq> InvalidArgument"
  by (simp add: PutNetworkACL_def exAdmin_def exACL_def noMatchSets_def)

text \<open>
  Claim C8. On the leader, for an authorized caller, an ACL with a non-empty name that
  is a valid identifier, a known action, at least one non-empty match set and no
  complaint of \<open>ValidateACL\<close> is put with success when the store accepts the write, and
  \<open>GetNetworkACL\<close> with that name then returns the ACL that was put, when the store
  serves the read. After any sequence of put requests, \<open>GetNetworkACL\<close> for a
  non-empty name that the store did not hold at the start and that none of the requests
  carried is answered \<open>NotFound\<close>.
\<close>

theorem ACL_round_trip:
  "(Consensus_IsLeader s \<and> Name acl \<noteq> [] \<and> IsValidID s (Name acl) \<and>
    fst (Evaluate s (Name acl)) \<and> ACLAction_name s (Action acl) \<noteq> None \<and>
    \<not> noMatchSets acl \<and> ValidateACL s acl = None \<and>
    putACLFault s = None \<and> getACLFault s = None \<and> Name query = Name acl \<longrightarrow>
      fst (PutNetworkACL s acl) = Inr () \<and>
      GetNetworkACL Quote (snd (PutNetworkACL s acl)) query = Inr acl) \<and>
   (Name query \<noteq> [] \<and> acls s (Name query) = None \<and> Name query \<notin> Name ` set puts \<and>
    getACLFault s = None \<longrightarrow>
      GetNetworkACL Quote (PutAll s puts) query =
        Inl (Status NotFound (''network acl '' @ Quote (Name query) @ '' not found'')))"
proof (intro conjI impI)
  assume "Consensus_IsLeader s \<and> Name acl \<noteq> [] \<and> IsValidID s (Name acl) \<and>
    fst (Evaluate s (Name acl)) \<and> ACLAction_name s (Action acl) \<noteq> None \<and>
    \<not> noMatchSets acl \<and> ValidateACL s acl = None \<and>
    putACLFault s = None \<and> getACLFault s = None \<and> Name query = Name acl"
  then show "fst (PutNetworkACL s acl) = Inr ()"
    and "GetNetworkACL Quote (snd (PutNetworkACL s acl)) query = Inr acl"
    by (auto simp: PutNetworkACL_def GetNetworkACL_def networking_PutNetworkACL_def
        networking_GetNetworkACL_def allEmpty_fields simp del: allEmpty.simps)
next
  assume a: "Name query \<noteq> [] \<and> acls s (Name query) = None \<and> Name query \<notin> Name ` set puts \<and>
    getACLFault s = None"
  then have "getACLFault (PutAll s puts) = None \<and> acls (PutAll s puts) (Name query) = None"
    using PutAll_never_put [of "Name query" puts s] by simp
  with a show "GetNetworkACL Quote (PutAll s puts) query =
        Inl (Status NotFound (''network acl '' @ Quote (Name query) @ '' not found''))"
    by (simp add: GetNetworkACL_def networking_GetNetworkACL_def)
qed

theorem ACL_round_trip_witness:
  "Consensus_IsLeader exAdmin \<and> Name exACL \<noteq> [] \<and> IsValidID exAdmin (Name exACL) \<and>
   fst (Evaluate exAdmin (Name exACL)) \<and> ACLAction_name exAdmin (Action exACL) \<noteq> None \<and>
   \<not> noMatchSets exACL \<and> ValidateACL exAdmin exACL = None \<and>
   putACLFault exAdmin = None \<and> getACLFault exAdmin = None \<and>
   fst (PutNetworkACL exAdmin exACL) = Inr () \<and>
   GetNetworkACL exQuote (snd (PutNetworkACL exAdmin exACL)) exACL = Inr exACL \<and>
   Name (exACL\<lparr>Name := ''deny-all''\<rparr>) \<noteq> [] \<and>
   acls exAdmin (Name (exACL\<lparr>Name := ''deny-all''\<rparr>)) = None \<and>
   Name (exACL\<lparr>Name := ''deny-all''\<rparr>) \<notin> Name ` set [exACL] \<and>
   GetNetworkACL exQuote (PutAll exAdmin [exACL]) (exACL\<lparr>Name := ''deny-all''\<rparr>) =
     Inl (Status NotFound (''network acl '' @ [CHR 0x22] @ ''deny-all'' @ [CHR 0x22] @ '' not found''))"
proof -
  have h1: "Consensus_IsLeader exAdmin \<and> Name exACL \<noteq> [] \<and> IsValidID exAdmin (Name exACL) \<and>
     fst (Evaluate exAdmin (Name exACL)) \<and> ACLAction_name exAdmin (Action exACL) \<noteq> None \<and>
     \<not> noMatchSets exACL \<and> ValidateACL exAdmin exACL = None \<and>
     putACLFault exAdmin = None \<and> getACLFault exAdmin = None \<and> Name exACL = Name exACL"
    by (simp add: exAdmin_def exACL_def noMatchSets_def)
  have h2: "Name (exACL\<lparr>Name := ''deny-all''\<rparr>) \<noteq> [] \<and>
     acls exAdmin (Name (exACL\<lparr>Name := ''deny-all''\<rparr>)) = None \<and>
     Name (exACL\<lparr>Name := ''deny-all''\<rparr>) \<notin> Name ` set [exACL] \<and> getACLFault exAdmin = None"
    by (simp add: exAdmin_def exACL_def)
  from ACL_round_trip [of exAdmin exACL exACL exQuote "[]"] h1
  have c1: "fst (PutNetworkACL exAdmin exACL) = Inr () \<and>
      GetNetworkACL exQuote (snd (PutNetworkACL exAdmin exACL)) exACL = Inr exACL"
    by blast
  from ACL_round_trip [of exAdmin exACL "exACL\<lparr>Name := ''deny-all''\<rparr>" exQuote "[exACL]"] h2
  have c2: "GetNetworkACL exQuote (PutAll exAdmin [exACL]) (exACL\<lparr>Name := ''deny-all''\<rparr>) =
      Inl (Status NotFound (''network acl '' @ exQuote (Name (exACL\<lparr>Name := ''deny-all''\<rparr>)) @ '' not found''))"
    by blast
  from h1 h2 c1 c2 show ?thesis by (simp add: exQuote_def)
qed

section \<open>A plugin that is not configured\<close>

text \<open>
  Claim C9, as amended. While the storage handle of a plugin is nil, \<open>Allocate\<close> of the
  IPAM plugin returns at once the plain error ``plugin not configured'', which carries
  no status code (\<open>status.Code\<close> reports \<open>Unknown\<close> for it), and each database
  handler of the debug plugin answers with HTTP status 500 and that message.
  \<open>Release\<close> does not look at the handle and succeeds.
\<close>

theorem plugin_not_configured:
  "(data p = None \<longrightarrow>
      Allocate ParsePrefix draws p r = Inl (Errorf ''plugin not configured'') \<and>
      status_Code (Errorf ''plugin not configured'') = Unknown) \<and>
   (debug_data dp = None \<longrightarrow>
      handleDBList dp q = \<lparr>StatusCode = 500, Body = ''plugin not configured'' @ [CHR 0x0A]\<rparr> \<and>
      handleDBGet TrimSpace dp q = \<lparr>StatusCode = 500, Body = ''plugin not configured'' @ [CHR 0x0A]\<rparr> \<and>
      handleDBIterPrefix dp = \<lparr>StatusCode = 500, Body = ''plugin not configured'' @ [CHR 0x0A]\<rparr>) \<and>
   Release p r = Inr ()"
  by (simp add: Allocate_def handleDBList_def handleDBGet_def handleDBIterPrefix_def http_Error_def
      StatusInternalServerError_def Release_def)

theorem plugin_not_configured_witness:
  "data exPluginUnconfigured = None \<and>
   Allocate exParsePrefix exDraws exPluginUnconfigured exRequest4 = Inl (Errorf ''plugin not configured'') \<and>
   debug_data \<lparr>debug_data = None\<rparr> = None \<and>
   handleDBList \<lparr>debug_data = None\<rparr> ''/registry'' =
     \<lparr>StatusCode = 500, Body = ''plugin not configured'' @ [CHR 0x0A]\<rparr>"
proof -
  have h1: "data exPluginUnconfigured = None" by (simp add: exPluginUnconfigured_def)
  have h2: "debug_data \<lparr>debug_data = None\<rparr> = None" by simp
  from plugin_not_configured [of exPluginUnconfigured exParsePrefix exDraws exRequest4
      "\<lparr>debug_data = None\<rparr>" "''/registry''" id] h1 h2
  show ?thesis by simp
qed

text \<open>
  The claim as stated has the error carry the code \<open>FailedPrecondition\<close>, and has
  every operation fail. For the request of \<open>n2\<close> on a plugin without storage handle,
  \<open>Allocate\<close> returns a plain error, whose code is \<open>Unknown\<close>, and \<open>Release\<close>
  succeeds.
\<close>

theorem plugin_not_configured_counterexample:
  "data exPluginUnconfigured = None \<and>
   Allocate exParsePrefix exDraws exPluginUnconfigured exRequest4 = Inl (Errorf ''plugin not configured'') \<and>
   status_Code (Errorf ''plugin not configured'') = Unknown \<and>
   Unknown \<noteq> FailedPrecondition \<and>
   Release exPluginUnconfigured exRequest4 = Inr ()"
  by (simp add: Allocate_def exPluginUnconfigured_def Release_def)

end
